theory Spec2Isabelle
  imports Main "HOL-Library.Multiset"
begin

text \<open>
  The feed controller of seedit's author view (\<open>src/views/author/author.tsx\<close>) and
  profile view (\<open>src/views/profile/profile.tsx\<close>): the filtered and sorted projections
  of a list of comments or votes, the client-side pages of the voted and the hidden feed,
  the effect that shows and hides the error banner, the effect that logs an error, the
  store of viewport snapshots, and what each component renders. Every function below
  is the code of one component, with the component's name in front where two components
  use the same name; the hooks' results and the route's parameters are arguments.
\<close>

section \<open>JavaScript values and built-ins used by the two views\<close>

text \<open>
  A value of type \<open>T | undefined\<close> is a \<open>T option\<close> (\<open>None\<close> is \<open>undefined\<close>).
  Timestamps and page numbers are JavaScript numbers that only ever hold integers
  (seconds since the epoch, page counters); they are \<open>int\<close>.
\<close>

text \<open>\<open>ToBoolean\<close> of an optional string: \<open>undefined\<close> and the empty string are falsy.\<close>

definition truthy :: "string option \<Rightarrow> bool" where
  "truthy v = (case v of None \<Rightarrow> False | Some s \<Rightarrow> s \<noteq> [])"

text \<open>The nullish coalescing \<open>v ?? ''\<close>.\<close>

definition orEmpty :: "string option \<Rightarrow> string" where
  "orEmpty v = (case v of None \<Rightarrow> [] | Some s \<Rightarrow> s)"

text \<open>
  The operator \<open>+\<close> on two operands of type \<open>string | undefined\<close>, its result used as a
  property key: a string operand turns \<open>undefined\<close> into the text \<open>undefined\<close>; with no
  string operand the sum is the number \<open>NaN\<close>, whose property key is \<open>NaN\<close>.
\<close>

definition js_plus :: "string option \<Rightarrow> string option \<Rightarrow> string" where
  "js_plus a b =
     (case a of
        None \<Rightarrow> (case b of None \<Rightarrow> ''NaN'' | Some t \<Rightarrow> ''undefined'' @ t)
      | Some s \<Rightarrow> (case b of None \<Rightarrow> s @ ''undefined'' | Some t \<Rightarrow> s @ t))"

text \<open>
  \<open>Array.prototype.slice(start, end)\<close>: a negative index counts from the end, both
  indices are clamped to the array, and an end before the start gives the empty array.
\<close>

definition relativeIndex :: "int \<Rightarrow> nat \<Rightarrow> nat" where
  "relativeIndex i len = (if i < 0 then nat (max (int len + i) 0) else min (nat i) len)"

definition slice :: "'a list \<Rightarrow> int \<Rightarrow> int \<Rightarrow> 'a list" where
  "slice xs start end =
     (let k = relativeIndex start (length xs);
          final = relativeIndex end (length xs)
      in take (final - k) (drop k xs))"

text \<open>
  \<open>Array.prototype.sort(compare)\<close>: ECMAScript requires a stable sort; \<open>compare a b \<le> 0\<close>
  leaves \<open>a\<close> before \<open>b\<close>. The engine's algorithm is not part of the program; a stable
  insertion sort stands for it.
\<close>

fun insertBy :: "('a \<Rightarrow> 'a \<Rightarrow> int) \<Rightarrow> 'a \<Rightarrow> 'a list \<Rightarrow> 'a list" where
  "insertBy compare x [] = [x]"
| "insertBy compare x (y # ys) =
     (if compare x y \<le> 0 then x # y # ys else y # insertBy compare x ys)"

definition sortBy :: "('a \<Rightarrow> 'a \<Rightarrow> int) \<Rightarrow> 'a list \<Rightarrow> 'a list" where
  "sortBy compare xs = foldr (insertBy compare) xs []"

section \<open>Data model\<close>

record comment =
  cid :: string
  parentCid :: "string option"
  timestamp :: int

record accountVote =
  vote :: int
  commentCid :: string
  voteTimestamp :: int

datatype js_error = Error (message: string)

text \<open>
  The local account: \<open>blockedCids\<close> holds the own keys of the \<open>blockedCids\<close> object in
  property order, as \<open>Object.keys\<close> returns them.
\<close>

record account =
  shortAddress :: string
  blockedCids :: "string list option"

text \<open>
  A \<open>StateSnapshot\<close> of the virtualised list: the rendered size ranges (start index, end
  index, size) and the scroll offset.
\<close>

record StateSnapshot =
  ranges :: "(int \<times> int \<times> int) list option"
  scrollTop :: int

type_synonym lastVirtuosoStates = "string \<rightharpoonup> StateSnapshot"

text \<open>\<open>error?.message\<close>\<close>

definition errorMessage :: "js_error option \<Rightarrow> string option" where
  "errorMessage error = map_option message error"

text \<open>
  The comparator \<open>(a, b) => (sortType === 'new' ? b.timestamp - a.timestamp :
  a.timestamp - b.timestamp)\<close>, over the record's timestamp field \<open>ts\<close>.
\<close>

definition compareTimestamps :: "string \<Rightarrow> ('a \<Rightarrow> int) \<Rightarrow> 'a \<Rightarrow> 'a \<Rightarrow> int" where
  "compareTimestamps sortType ts a b = (if sortType = ''new'' then ts b - ts a else ts a - ts b)"

definition pageSize :: int where
  "pageSize = 10"

section \<open>profile.tsx\<close>

subsection \<open>Overview\<close>

definition Overview_sortedComments :: "comment list \<Rightarrow> string \<Rightarrow> comment list" where
  "Overview_sortedComments accountComments sortType =
     sortBy (compareTimestamps sortType timestamp) accountComments"

definition Overview_errorEffect :: "js_error option \<Rightarrow> comment list \<Rightarrow> bool \<Rightarrow> bool" where
  "Overview_errorEffect error sortedComments shouldShowErrorToUserOverview =
     (if truthy (errorMessage error) \<and> length sortedComments = 0 then True
      else if length sortedComments > 0 then False
      else shouldShowErrorToUserOverview)"

subsection \<open>Comments\<close>

definition Comments_replyComments :: "comment list option \<Rightarrow> comment list" where
  "Comments_replyComments accountComments =
     (case accountComments of
        None \<Rightarrow> []
      | Some cs \<Rightarrow> filter (\<lambda>comment. truthy (parentCid comment)) cs)"

definition Comments_sortedComments :: "comment list option \<Rightarrow> string \<Rightarrow> comment list" where
  "Comments_sortedComments accountComments sortType =
     sortBy (compareTimestamps sortType timestamp) (Comments_replyComments accountComments)"

definition Comments_errorEffect :: "js_error option \<Rightarrow> comment list \<Rightarrow> bool \<Rightarrow> bool" where
  "Comments_errorEffect error sortedComments shouldShowErrorToUserComments =
     (if truthy (errorMessage error) \<and> length sortedComments = 0 then True
      else if length sortedComments > 0 then False
      else shouldShowErrorToUserComments)"

subsection \<open>Submitted\<close>

definition Submitted_postComments :: "comment list option \<Rightarrow> comment list" where
  "Submitted_postComments accountComments =
     (case accountComments of
        None \<Rightarrow> []
      | Some cs \<Rightarrow> filter (\<lambda>comment. \<not> truthy (parentCid comment)) cs)"

definition Submitted_sortedComments :: "comment list option \<Rightarrow> string \<Rightarrow> comment list" where
  "Submitted_sortedComments accountComments sortType =
     sortBy (compareTimestamps sortType timestamp) (Submitted_postComments accountComments)"

definition Submitted_errorEffect :: "js_error option \<Rightarrow> comment list \<Rightarrow> bool \<Rightarrow> bool" where
  "Submitted_errorEffect error sortedComments shouldShowErrorToUserSubmitted =
     (if truthy (errorMessage error) \<and> length sortedComments = 0 then True
      else if length sortedComments > 0 then False
      else shouldShowErrorToUserSubmitted)"

subsection \<open>VotedComments\<close>

definition filteredVotes :: "accountVote list option \<Rightarrow> int \<Rightarrow> accountVote list" where
  "filteredVotes accountVotes voteType =
     (case accountVotes of None \<Rightarrow> [] | Some vs \<Rightarrow> filter (\<lambda>v. vote v = voteType) vs)"

definition sortedVotes :: "accountVote list option \<Rightarrow> int \<Rightarrow> string \<Rightarrow> accountVote list" where
  "sortedVotes accountVotes voteType sortType =
     sortBy (compareTimestamps sortType voteTimestamp) (filteredVotes accountVotes voteType)"

definition votedCommentCids :: "accountVote list option \<Rightarrow> int \<Rightarrow> string \<Rightarrow> string list" where
  "votedCommentCids accountVotes voteType sortType =
     map commentCid (sortedVotes accountVotes voteType sortType)"

definition paginatedCids :: "string list \<Rightarrow> int \<Rightarrow> string list" where
  "paginatedCids cids currentPage =
     slice cids ((currentPage - 1) * pageSize) (currentPage * pageSize)"

definition Voted_hasMore :: "string list \<Rightarrow> int \<Rightarrow> bool" where
  "Voted_hasMore cids currentPage = (currentPage * pageSize < int (length cids))"

definition Voted_errorEffect :: "js_error option \<Rightarrow> string list \<Rightarrow> bool \<Rightarrow> bool \<Rightarrow> bool" where
  "Voted_errorEffect error paginated hasMore shouldShowErrorToUserVoted =
     (if truthy (errorMessage error) \<and> length paginated = 0 \<and> hasMore then True
      else if length paginated > 0 then False
      else shouldShowErrorToUserVoted)"

subsection \<open>HiddenComments\<close>

definition allHiddenCids :: "account option \<Rightarrow> string list" where
  "allHiddenCids acct =
     (case acct of
        None \<Rightarrow> []
      | Some a \<Rightarrow> (case blockedCids a of None \<Rightarrow> [] | Some ks \<Rightarrow> ks))"

definition hiddenCommentCids :: "account option \<Rightarrow> int \<Rightarrow> string list" where
  "hiddenCommentCids acct currentPage = slice (allHiddenCids acct) 0 (currentPage * pageSize)"

definition Hidden_hasMore :: "account option \<Rightarrow> int \<Rightarrow> bool" where
  "Hidden_hasMore acct currentPage =
     (case acct of
        None \<Rightarrow> False
      | Some a \<Rightarrow>
          (case blockedCids a of
             None \<Rightarrow> False
           | Some ks \<Rightarrow> int (length ks) > currentPage * pageSize))"

subsection \<open>Rendered output\<close>

text \<open>
  What a component returns, as the list of the elements it renders, in document order.
  \<open>Pagination previous next\<close> carries which of the two buttons are rendered.
\<close>

datatype element =
    ErrorBanner
  | SortDropdown
  | NothingFound
  | VirtualizedCommentList "comment list"
  | CommentItem string
  | Pagination bool bool
  | AuthorSidebar
  | Virtuoso "comment option list option"
  | LoadingFooter

definition PaginationControls :: "int \<Rightarrow> bool \<Rightarrow> element list" where
  "PaginationControls currentPage hasMore =
     (if hasMore \<or> currentPage > 1 then [Pagination (currentPage > 1) hasMore] else [])"

definition Overview_render :: "bool \<Rightarrow> comment list \<Rightarrow> element list" where
  "Overview_render shouldShowErrorToUserOverview sortedComments =
     (if shouldShowErrorToUserOverview then [ErrorBanner] else []) @ [SortDropdown] @
     (if length sortedComments = 0 then [NothingFound]
      else [VirtualizedCommentList sortedComments])"

definition Comments_render :: "bool \<Rightarrow> comment list \<Rightarrow> element list" where
  "Comments_render shouldShowErrorToUserComments sortedComments =
     (if shouldShowErrorToUserComments then [ErrorBanner] else []) @ [SortDropdown] @
     (if length sortedComments = 0 then [NothingFound]
      else [VirtualizedCommentList sortedComments])"

definition Submitted_render :: "bool \<Rightarrow> comment list \<Rightarrow> element list" where
  "Submitted_render shouldShowErrorToUserSubmitted sortedComments =
     (if shouldShowErrorToUserSubmitted then [ErrorBanner] else []) @ [SortDropdown] @
     (if length sortedComments = 0 then [NothingFound]
      else [VirtualizedCommentList sortedComments])"

definition Voted_render :: "bool \<Rightarrow> string list \<Rightarrow> int \<Rightarrow> bool \<Rightarrow> element list" where
  "Voted_render shouldShowErrorToUserVoted paginated currentPage hasMore =
     (if shouldShowErrorToUserVoted then [ErrorBanner] else []) @ [SortDropdown] @
     (if length paginated = 0 then [NothingFound] else map CommentItem paginated) @
     PaginationControls currentPage hasMore"

definition Hidden_render :: "string list \<Rightarrow> int \<Rightarrow> bool \<Rightarrow> element list" where
  "Hidden_render hiddenCids currentPage hasMore =
     (if length hiddenCids = 0 then [NothingFound] else map CommentItem hiddenCids) @
     PaginationControls currentPage hasMore"

subsection \<open>The VotedComments component as a state machine\<close>

text \<open>
  The component's own state (\<open>useState\<close>) and the values the hook and the parent hand to
  it. The page only changes through the two buttons of \<open>PaginationControls\<close>, which exist
  only when rendered; the error effect runs after every render.
\<close>

record VotedState =
  voted_currentPage :: int
  voted_sortType :: string
  shouldShowErrorToUserVoted :: bool
  voted_error :: "js_error option"
  voted_accountVotes :: "accountVote list option"
  voted_voteType :: int

datatype VotedEvent =
    HookUpdate "js_error option" "accountVote list option"
  | PropChange int
  | SortChange string
  | ClickPrevious
  | ClickNext

definition Voted_cids :: "VotedState \<Rightarrow> string list" where
  "Voted_cids s = votedCommentCids (voted_accountVotes s) (voted_voteType s) (voted_sortType s)"

definition Voted_runEffect :: "VotedState \<Rightarrow> VotedState" where
  "Voted_runEffect s =
     s\<lparr>shouldShowErrorToUserVoted :=
         Voted_errorEffect (voted_error s) (paginatedCids (Voted_cids s) (voted_currentPage s))
           (Voted_hasMore (Voted_cids s) (voted_currentPage s)) (shouldShowErrorToUserVoted s)\<rparr>"

fun Voted_handle :: "VotedState \<Rightarrow> VotedEvent \<Rightarrow> VotedState" where
  "Voted_handle s (HookUpdate e vs) = s\<lparr>voted_error := e, voted_accountVotes := vs\<rparr>"
| "Voted_handle s (PropChange t) = s\<lparr>voted_voteType := t\<rparr>"
| "Voted_handle s (SortChange st) = s\<lparr>voted_sortType := st\<rparr>"
| "Voted_handle s ClickPrevious =
     (if (Voted_hasMore (Voted_cids s) (voted_currentPage s) \<or> voted_currentPage s > 1) \<and>
         voted_currentPage s > 1
      then s\<lparr>voted_currentPage := voted_currentPage s - 1\<rparr> else s)"
| "Voted_handle s ClickNext =
     (if (Voted_hasMore (Voted_cids s) (voted_currentPage s) \<or> voted_currentPage s > 1) \<and>
         Voted_hasMore (Voted_cids s) (voted_currentPage s)
      then s\<lparr>voted_currentPage := voted_currentPage s + 1\<rparr> else s)"

definition Voted_step :: "VotedState \<Rightarrow> VotedEvent \<Rightarrow> VotedState" where
  "Voted_step s ev = Voted_runEffect (Voted_handle s ev)"

definition Voted_mount :: "js_error option \<Rightarrow> accountVote list option \<Rightarrow> int \<Rightarrow> VotedState" where
  "Voted_mount e vs t =
     Voted_runEffect
       \<lparr>voted_currentPage = 1, voted_sortType = ''new'', shouldShowErrorToUserVoted = False,
        voted_error = e, voted_accountVotes = vs, voted_voteType = t\<rparr>"

definition Voted_run :: "VotedState \<Rightarrow> VotedEvent list \<Rightarrow> VotedState" where
  "Voted_run s evs = foldl Voted_step s evs"

subsection \<open>VirtualizedCommentList: saving the viewport on scroll\<close>

text \<open>
  A scroll event: \<open>None\<close> when \<open>virtuosoRef.current\<close> is null, otherwise the snapshot
  that \<open>getState\<close> hands to the callback.
\<close>

type_synonym scroll = "StateSnapshot option option"

definition setLastVirtuosoState :: "string \<Rightarrow> scroll \<Rightarrow> lastVirtuosoStates \<Rightarrow> lastVirtuosoStates" where
  "setLastVirtuosoState key ev states =
     (case ev of
        None \<Rightarrow> states
      | Some None \<Rightarrow> states
      | Some (Some snapshot) \<Rightarrow>
          (case ranges snapshot of
             None \<Rightarrow> states
           | Some rs \<Rightarrow> if length rs \<noteq> 0 then states(key \<mapsto> snapshot) else states))"

definition Profile_key :: "account option \<Rightarrow> string option \<Rightarrow> string" where
  "Profile_key acct sortTypeParam = js_plus (map_option shortAddress acct) sortTypeParam"

definition Profile_onScroll ::
  "lastVirtuosoStates \<Rightarrow> account option \<times> string option \<times> scroll \<Rightarrow> lastVirtuosoStates" where
  "Profile_onScroll states ev =
     (case ev of (acct, sortTypeParam, sc) \<Rightarrow>
        setLastVirtuosoState (Profile_key acct sortTypeParam) sc states)"

subsection \<open>Logging an incoming error\<close>

text \<open>
  The effect on \<open>error\<close> that every component with an error carries (Author, Overview,
  Comments, Submitted, VotedComments), with the same text in each: the state is
  \<open>prevErrorMessageRef.current\<close> and the console's log.
\<close>

definition logErrorEffect :: "string option \<times> js_error list \<Rightarrow> js_error option \<Rightarrow> string option \<times> js_error list" where
  "logErrorEffect st err =
     (case st of (prevErrorMessage, console) \<Rightarrow>
        (case err of
           None \<Rightarrow> (prevErrorMessage, console)
         | Some e \<Rightarrow>
             if Some (message e) \<noteq> prevErrorMessage then (Some (message e), console @ [e])
             else (prevErrorMessage, console)))"

definition logged :: "js_error option list \<Rightarrow> js_error list" where
  "logged errors = snd (foldl logErrorEffect (None, []) errors)"

section \<open>author.tsx\<close>

definition Author_replyComments :: "comment option list option \<Rightarrow> comment option list" where
  "Author_replyComments authorComments =
     (case authorComments of
        None \<Rightarrow> []
      | Some cs \<Rightarrow>
          filter (\<lambda>c. case c of None \<Rightarrow> False | Some comment \<Rightarrow> truthy (parentCid comment)) cs)"

definition Author_postComments :: "comment option list option \<Rightarrow> comment option list" where
  "Author_postComments authorComments =
     (case authorComments of
        None \<Rightarrow> []
      | Some cs \<Rightarrow>
          filter (\<lambda>c. case c of None \<Rightarrow> False | Some comment \<Rightarrow> \<not> truthy (parentCid comment)) cs)"

text \<open>
  \<open>isInAuthorCommentsView\<close> and \<open>isInAuthorSubmittedView\<close> come from the route; they are
  parameters here.
\<close>

definition virtuosoData :: "bool \<Rightarrow> bool \<Rightarrow> comment option list option \<Rightarrow> comment option list option" where
  "virtuosoData isInAuthorCommentsView isInAuthorSubmittedView authorComments =
     (if isInAuthorCommentsView then Some (Author_replyComments authorComments)
      else if isInAuthorSubmittedView then Some (Author_postComments authorComments)
      else authorComments)"

definition Author_errorEffect :: "js_error option \<Rightarrow> comment option list option \<Rightarrow> bool \<Rightarrow> bool" where
  "Author_errorEffect error vdata shouldShowErrorToUser =
     (if truthy (errorMessage error) \<and> map_option length vdata = Some 0 then True
      else if (case vdata of None \<Rightarrow> False | Some d \<Rightarrow> length d > 0) then False
      else shouldShowErrorToUser)"

definition Footer :: "bool \<Rightarrow> element list" where
  "Footer hasMore = (if hasMore then [LoadingFooter] else [])"

definition Author_render :: "bool \<Rightarrow> comment option list option \<Rightarrow> bool \<Rightarrow> element list" where
  "Author_render shouldShowErrorToUser vdata hasMore =
     [AuthorSidebar] @ (if shouldShowErrorToUser then [ErrorBanner] else []) @
     [Virtuoso vdata] @ Footer hasMore @
     (if map_option length vdata = Some 0 \<and> \<not> hasMore then [NothingFound] else [])"

definition Author_key :: "string option \<Rightarrow> string option \<Rightarrow> string" where
  "Author_key authorAddress sortTypeParam = orEmpty authorAddress @ orEmpty sortTypeParam"

definition Author_onScroll ::
  "lastVirtuosoStates \<Rightarrow> string option \<times> string option \<times> scroll \<Rightarrow> lastVirtuosoStates" where
  "Author_onScroll states ev =
     (case ev of (authorAddress, sortTypeParam, sc) \<Rightarrow>
        setLastVirtuosoState (Author_key authorAddress sortTypeParam) sc states)"

section \<open>Sequences of renders, and the notions the properties are stated with\<close>

subsection \<open>The error effect over a sequence of renders\<close>

text \<open>
  Each component starts with its flag false (\<open>useState(false)\<close>) and runs its error effect
  after every render in which the hook's values or the sort type changed; an update
  carries those values.
\<close>

definition Overview_update :: "bool \<Rightarrow> js_error option \<times> comment list \<times> string \<Rightarrow> bool" where
  "Overview_update shown u =
     (case u of (e, accountComments, sortType) \<Rightarrow>
        Overview_errorEffect e (Overview_sortedComments accountComments sortType) shown)"

definition Overview_run :: "(js_error option \<times> comment list \<times> string) list \<Rightarrow> bool" where
  "Overview_run us = foldl Overview_update False us"

definition Comments_update :: "bool \<Rightarrow> js_error option \<times> comment list option \<times> string \<Rightarrow> bool" where
  "Comments_update shown u =
     (case u of (e, accountComments, sortType) \<Rightarrow>
        Comments_errorEffect e (Comments_sortedComments accountComments sortType) shown)"

definition Comments_run :: "(js_error option \<times> comment list option \<times> string) list \<Rightarrow> bool" where
  "Comments_run us = foldl Comments_update False us"

definition Submitted_update :: "bool \<Rightarrow> js_error option \<times> comment list option \<times> string \<Rightarrow> bool" where
  "Submitted_update shown u =
     (case u of (e, accountComments, sortType) \<Rightarrow>
        Submitted_errorEffect e (Submitted_sortedComments accountComments sortType) shown)"

definition Submitted_run :: "(js_error option \<times> comment list option \<times> string) list \<Rightarrow> bool" where
  "Submitted_run us = foldl Submitted_update False us"

definition Author_update ::
  "bool \<Rightarrow> js_error option \<times> bool \<times> bool \<times> comment option list option \<Rightarrow> bool" where
  "Author_update shown u =
     (case u of (e, isInAuthorCommentsView, isInAuthorSubmittedView, authorComments) \<Rightarrow>
        Author_errorEffect e
          (virtuosoData isInAuthorCommentsView isInAuthorSubmittedView authorComments) shown)"

definition Author_run ::
  "(js_error option \<times> bool \<times> bool \<times> comment option list option) list \<Rightarrow> bool" where
  "Author_run us = foldl Author_update False us"

text \<open>The slice that VotedComments renders in a state.\<close>

definition Voted_paginated :: "VotedState \<Rightarrow> string list" where
  "Voted_paginated s = paginatedCids (Voted_cids s) (voted_currentPage s)"

text \<open>
  The invariant of the VotedComments state machine: the page is at least 1 and the error
  banner is hidden.
\<close>

definition Voted_inv :: "VotedState \<Rightarrow> bool" where
  "Voted_inv s = (1 \<le> voted_currentPage s \<and> \<not> shouldShowErrorToUserVoted s)"

subsection \<open>Notions of the specification\<close>

text \<open>
  The spec's slice notation \<open>sequence[a : b]\<close> for bounds \<open>0 \<le> a \<le> b\<close>: the elements
  at the positions \<open>a, ..., b - 1\<close> that exist.
\<close>

definition spec_slice :: "'a list \<Rightarrow> nat \<Rightarrow> nat \<Rightarrow> 'a list" where
  "spec_slice xs a b = take (b - a) (drop a xs)"

text \<open>The messages of the errors that arrive, in order (an absent error has none).\<close>

definition incomingMessages :: "js_error option list \<Rightarrow> string list" where
  "incomingMessages errors = map message (List.map_filter (\<lambda>x. x) errors)"

subsection \<open>Sample values\<close>

text \<open>A post, a reply to it, a later reply, an upvote, and the error of a failed fetch.\<close>

definition post1 :: comment where
  "post1 = \<lparr>cid = ''QmPost'', parentCid = None, timestamp = 1700000000\<rparr>"

definition reply1 :: comment where
  "reply1 = \<lparr>cid = ''QmReply'', parentCid = Some ''QmPost'', timestamp = 1700000060\<rparr>"

definition reply2 :: comment where
  "reply2 = \<lparr>cid = ''QmLater'', parentCid = Some ''QmPost'', timestamp = 1700000300\<rparr>"

definition upvote1 :: accountVote where
  "upvote1 = \<lparr>vote = 1, commentCid = ''QmPost'', voteTimestamp = 1700000120\<rparr>"

definition fetchError :: "js_error option" where
  "fetchError = Some (Error ''failed to fetch'')"

text \<open>A comment whose \<open>parentCid\<close> is there but is the empty string.\<close>

definition emptyParent :: comment where
  "emptyParent = \<lparr>cid = ''QmOdd'', parentCid = Some [], timestamp = 1700000200\<rparr>"

text \<open>
  Twenty-five identifiers, the size of the spec's pagination example, and an account
  that has hidden exactly these.
\<close>

definition cids25 :: "string list" where
  "cids25 =
     [''c01'', ''c02'', ''c03'', ''c04'', ''c05'', ''c06'', ''c07'', ''c08'',
      ''c09'', ''c10'', ''c11'', ''c12'', ''c13'', ''c14'', ''c15'', ''c16'',
      ''c17'', ''c18'', ''c19'', ''c20'', ''c21'', ''c22'', ''c23'', ''c24'',
      ''c25'']"

definition account25 :: "account option" where
  "account25 = Some \<lparr>shortAddress = ''12D3KooW'', blockedCids = Some cids25\<rparr>"

text \<open>Two accounts that have hidden nothing; the second one's address extends the first's.\<close>

definition account1 :: "account option" where
  "account1 = Some \<lparr>shortAddress = ''12D3KooW'', blockedCids = None\<rparr>"

definition account2 :: "account option" where
  "account2 = Some \<lparr>shortAddress = ''12D3KooWn'', blockedCids = None\<rparr>"

text \<open>
  A snapshot taken half-way down a feed, one taken further down, and the snapshot of a
  list that has rendered nothing.
\<close>

definition goodSnapshot :: StateSnapshot where
  "goodSnapshot = \<lparr>ranges = Some [(0, 11, 96)], scrollTop = 1480\<rparr>"

definition laterSnapshot :: StateSnapshot where
  "laterSnapshot = \<lparr>ranges = Some [(12, 20, 96)], scrollTop = 3200\<rparr>"

definition emptySnapshot :: StateSnapshot where
  "emptySnapshot = \<lparr>ranges = Some [], scrollTop = 0\<rparr>"

section \<open>Sorting\<close>

text \<open>
  With the timestamp comparator, \<open>sortBy\<close> is the library's stable insertion sort on
  the key \<open>- timestamp\<close> (newest first) or \<open>timestamp\<close> (any other sort type).
\<close>

lemma insertBy_insort_key:
  "insertBy (compareTimestamps st ts) x ys =
     insort_key (\<lambda>a. if st = ''new'' then - ts a else ts a) x ys"
  by (induction ys) (auto simp: compareTimestamps_def)

lemma sortBy_sort_key:
  "sortBy (compareTimestamps st ts) xs =
     sort_key (\<lambda>a. if st = ''new'' then - ts a else ts a) xs"
  by (induction xs) (simp_all add: sortBy_def sort_key_def insertBy_insort_key)

lemma sortBy_mset: "mset (sortBy (compareTimestamps st ts) xs) = mset xs"
  by (simp add: sortBy_sort_key)

lemma sortBy_length: "length (sortBy (compareTimestamps st ts) xs) = length xs"
  by (simp add: sortBy_sort_key)

lemma sortBy_set: "set (sortBy (compareTimestamps st ts) xs) = set xs"
  by (simp add: sortBy_sort_key)

lemma sortBy_stable:
  "filter (\<lambda>a. ts a = k) (sortBy (compareTimestamps st ts) xs) = filter (\<lambda>a. ts a = k) xs"
proof -
  define k' where "k' = (if st = ''new'' then - k else k)"
  have eq: "(\<lambda>a. ts a = k) = (\<lambda>a. (if st = ''new'' then - ts a else ts a) = k')"
    by (auto simp: k'_def)
  show ?thesis
    unfolding eq sortBy_sort_key by (rule sort_key_stable)
qed

lemma sortBy_new_descending:
  "sorted_wrt (\<lambda>a b. ts a \<ge> ts b) (sortBy (compareTimestamps ''new'' ts) xs)"
proof -
  have "sorted (map (\<lambda>a. - ts a) (sort_key (\<lambda>a. - ts a) xs))"
    by (rule sorted_sort_key)
  then show ?thesis
    by (simp add: sortBy_sort_key sorted_map)
qed

lemma sortBy_other_ascending:
  "st \<noteq> ''new'' \<Longrightarrow> sorted_wrt (\<lambda>a b. ts a \<le> ts b) (sortBy (compareTimestamps st ts) xs)"
proof -
  assume "st \<noteq> ''new''"
  moreover have "sorted (map ts (sort_key ts xs))"
    by (rule sorted_sort_key)
  ultimately show ?thesis
    by (simp add: sortBy_sort_key sorted_map)
qed

text \<open>
  C6, as the code has it. The profile's components sort: in Overview, Comments,
  Submitted and VotedComments the list that is rendered (for VotedComments, the cids of
  the sorted votes) is a rearrangement of the hook's list after the component's filter;
  it is in descending timestamp order for the sort type \<open>new\<close> and in ascending order
  for \<open>old\<close>; and for either sort type (indeed for every value of \<open>sortType\<close>) the
  items that share a timestamp stand in the output in the order they had in the hook's
  list. The author view does not sort: \<open>sortType\<close> is read from the route and enters the
  snapshot key only, and each of the three projections is the hook's list, filtered or
  whole, in the hook's order.
\<close>

theorem projection_sort_stable:
  "mset (Overview_sortedComments cs st) = mset cs
   \<and> sorted_wrt (\<lambda>a b. timestamp a \<ge> timestamp b) (Overview_sortedComments cs ''new'')
   \<and> sorted_wrt (\<lambda>a b. timestamp a \<le> timestamp b) (Overview_sortedComments cs ''old'')
   \<and> (\<forall>k. filter (\<lambda>a. timestamp a = k) (Overview_sortedComments cs st)
            = filter (\<lambda>a. timestamp a = k) cs)
   \<and> mset (Comments_sortedComments (Some cs) st)
       = mset (filter (\<lambda>a. truthy (parentCid a)) cs)
   \<and> sorted_wrt (\<lambda>a b. timestamp a \<ge> timestamp b) (Comments_sortedComments (Some cs) ''new'')
   \<and> sorted_wrt (\<lambda>a b. timestamp a \<le> timestamp b) (Comments_sortedComments (Some cs) ''old'')
   \<and> (\<forall>k. filter (\<lambda>a. timestamp a = k) (Comments_sortedComments (Some cs) st)
            = filter (\<lambda>a. truthy (parentCid a) \<and> timestamp a = k) cs)
   \<and> Comments_sortedComments None st = []
   \<and> mset (Submitted_sortedComments (Some cs) st)
       = mset (filter (\<lambda>a. \<not> truthy (parentCid a)) cs)
   \<and> sorted_wrt (\<lambda>a b. timestamp a \<ge> timestamp b) (Submitted_sortedComments (Some cs) ''new'')
   \<and> sorted_wrt (\<lambda>a b. timestamp a \<le> timestamp b) (Submitted_sortedComments (Some cs) ''old'')
   \<and> (\<forall>k. filter (\<lambda>a. timestamp a = k) (Submitted_sortedComments (Some cs) st)
            = filter (\<lambda>a. \<not> truthy (parentCid a) \<and> timestamp a = k) cs)
   \<and> Submitted_sortedComments None st = []
   \<and> votedCommentCids (Some vs) vt st = map commentCid (sortedVotes (Some vs) vt st)
   \<and> mset (sortedVotes (Some vs) vt st) = mset (filter (\<lambda>v. vote v = vt) vs)
   \<and> sorted_wrt (\<lambda>a b. voteTimestamp a \<ge> voteTimestamp b) (sortedVotes (Some vs) vt ''new'')
   \<and> sorted_wrt (\<lambda>a b. voteTimestamp a \<le> voteTimestamp b) (sortedVotes (Some vs) vt ''old'')
   \<and> (\<forall>k. filter (\<lambda>v. voteTimestamp v = k) (sortedVotes (Some vs) vt st)
            = filter (\<lambda>v. vote v = vt \<and> voteTimestamp v = k) vs)
   \<and> votedCommentCids None vt st = []
   \<and> virtuosoData True isub (Some acs)
       = Some (filter (\<lambda>c. case c of None \<Rightarrow> False | Some a \<Rightarrow> truthy (parentCid a)) acs)
   \<and> virtuosoData False True (Some acs)
       = Some (filter (\<lambda>c. case c of None \<Rightarrow> False | Some a \<Rightarrow> \<not> truthy (parentCid a)) acs)
   \<and> virtuosoData False False aucs = aucs"
proof -
  have overview: "mset (Overview_sortedComments cs st) = mset cs
     \<and> sorted_wrt (\<lambda>a b. timestamp a \<ge> timestamp b) (Overview_sortedComments cs ''new'')
     \<and> sorted_wrt (\<lambda>a b. timestamp a \<le> timestamp b) (Overview_sortedComments cs ''old'')
     \<and> (\<forall>k. filter (\<lambda>a. timestamp a = k) (Overview_sortedComments cs st)
            = filter (\<lambda>a. timestamp a = k) cs)"
    unfolding Overview_sortedComments_def
    by (intro conjI allI sortBy_mset sortBy_stable sortBy_new_descending
        sortBy_other_ascending) simp
  have comments: "mset (Comments_sortedComments (Some cs) st)
       = mset (filter (\<lambda>a. truthy (parentCid a)) cs)
     \<and> sorted_wrt (\<lambda>a b. timestamp a \<ge> timestamp b) (Comments_sortedComments (Some cs) ''new'')
     \<and> sorted_wrt (\<lambda>a b. timestamp a \<le> timestamp b) (Comments_sortedComments (Some cs) ''old'')
     \<and> (\<forall>k. filter (\<lambda>a. timestamp a = k) (Comments_sortedComments (Some cs) st)
            = filter (\<lambda>a. truthy (parentCid a) \<and> timestamp a = k) cs)
     \<and> Comments_sortedComments None st = []"
  proof -
    have "Comments_sortedComments None st = []"
      by (simp add: Comments_sortedComments_def Comments_replyComments_def sortBy_def)
    then show ?thesis
      by (simp add: Comments_sortedComments_def Comments_replyComments_def sortBy_mset
          sortBy_stable sortBy_new_descending sortBy_other_ascending conj_commute)
  qed
  have submitted: "mset (Submitted_sortedComments (Some cs) st)
       = mset (filter (\<lambda>a. \<not> truthy (parentCid a)) cs)
     \<and> sorted_wrt (\<lambda>a b. timestamp a \<ge> timestamp b) (Submitted_sortedComments (Some cs) ''new'')
     \<and> sorted_wrt (\<lambda>a b. timestamp a \<le> timestamp b) (Submitted_sortedComments (Some cs) ''old'')
     \<and> (\<forall>k. filter (\<lambda>a. timestamp a = k) (Submitted_sortedComments (Some cs) st)
            = filter (\<lambda>a. \<not> truthy (parentCid a) \<and> timestamp a = k) cs)
     \<and> Submitted_sortedComments None st = []"
  proof -
    have "Submitted_sortedComments None st = []"
      by (simp add: Submitted_sortedComments_def Submitted_postComments_def sortBy_def)
    then show ?thesis
      by (simp add: Submitted_sortedComments_def Submitted_postComments_def sortBy_mset
          sortBy_stable sortBy_new_descending sortBy_other_ascending conj_commute)
  qed
  have voted: "votedCommentCids (Some vs) vt st = map commentCid (sortedVotes (Some vs) vt st)
     \<and> mset (sortedVotes (Some vs) vt st) = mset (filter (\<lambda>v. vote v = vt) vs)
     \<and> sorted_wrt (\<lambda>a b. voteTimestamp a \<ge> voteTimestamp b) (sortedVotes (Some vs) vt ''new'')
     \<and> sorted_wrt (\<lambda>a b. voteTimestamp a \<le> voteTimestamp b) (sortedVotes (Some vs) vt ''old'')
     \<and> (\<forall>k. filter (\<lambda>v. voteTimestamp v = k) (sortedVotes (Some vs) vt st)
            = filter (\<lambda>v. vote v = vt \<and> voteTimestamp v = k) vs)
     \<and> votedCommentCids None vt st = []"
  proof -
    have "votedCommentCids None vt st = []"
      by (simp add: votedCommentCids_def sortedVotes_def filteredVotes_def sortBy_def)
    then show ?thesis
      by (simp add: votedCommentCids_def sortedVotes_def filteredVotes_def sortBy_mset
          sortBy_stable sortBy_new_descending sortBy_other_ascending conj_commute)
  qed
  have author: "virtuosoData True isub (Some acs)
       = Some (filter (\<lambda>c. case c of None \<Rightarrow> False | Some a \<Rightarrow> truthy (parentCid a)) acs)
     \<and> virtuosoData False True (Some acs)
       = Some (filter (\<lambda>c. case c of None \<Rightarrow> False | Some a \<Rightarrow> \<not> truthy (parentCid a)) acs)
     \<and> virtuosoData False False aucs = aucs"
    by (simp add: virtuosoData_def Author_replyComments_def Author_postComments_def)
  from overview comments submitted voted author show ?thesis
    by (intro conjI) (elim conjE, assumption)+
qed

text \<open>
  C6 as stated fails in the author view. With the sort type \<open>new\<close> in the route (it is
  part of the snapshot key), the replies of an author whose hook lists the older reply
  first are rendered older first; the profile's Comments on the same two replies
  renders the newer one first.
\<close>

theorem author_projection_unsorted_counterexample:
  "Author_key (Some ''alice.eth'') (Some ''new'') = ''alice.ethnew''
   \<and> virtuosoData True False (Some [Some reply1, Some reply2]) = Some [Some reply1, Some reply2]
   \<and> timestamp reply1 < timestamp reply2
   \<and> \<not> sorted_wrt (\<lambda>a b. timestamp a \<ge> timestamp b) [reply1, reply2]
   \<and> Comments_sortedComments (Some [reply1, reply2]) ''new'' = [reply2, reply1]"
  by (simp add: Author_key_def orEmpty_def virtuosoData_def Author_replyComments_def
      Comments_sortedComments_def Comments_replyComments_def sortBy_def compareTimestamps_def
      truthy_def reply1_def reply2_def)

section \<open>Client-side pages of the voted feed\<close>

lemma paginatedCids_window:
  "1 \<le> p \<Longrightarrow> paginatedCids cids p = take 10 (drop (nat ((p - 1) * 10)) cids)"
  by (auto simp: paginatedCids_def slice_def relativeIndex_def pageSize_def Let_def min_def
      nat_diff_distrib nat_mult_distrib)

lemma paginatedCids_empty_no_more:
  assumes "1 \<le> p" and "paginatedCids cids p = []"
  shows "\<not> Voted_hasMore cids p"
proof -
  from assms have "take 10 (drop (nat ((p - 1) * 10)) cids) = []"
    by (simp add: paginatedCids_window)
  then have "length cids \<le> nat ((p - 1) * 10)"
    by simp
  with assms(1) show ?thesis
    by (simp add: Voted_hasMore_def pageSize_def)
qed

lemma Voted_errorEffect_hidden:
  "1 \<le> p \<Longrightarrow> \<not> Voted_errorEffect e (paginatedCids cids p) (Voted_hasMore cids p) False"
  using paginatedCids_empty_no_more [of p cids]
  by (auto simp: Voted_errorEffect_def)

lemma Voted_runEffect_inv: "Voted_inv s \<Longrightarrow> Voted_inv (Voted_runEffect s)"
  using Voted_errorEffect_hidden [of "voted_currentPage s" "voted_error s" "Voted_cids s"]
  by (simp add: Voted_inv_def Voted_runEffect_def)

lemma Voted_handle_inv: "Voted_inv s \<Longrightarrow> Voted_inv (Voted_handle s ev)"
  by (cases ev) (auto simp: Voted_inv_def Voted_hasMore_def pageSize_def)

lemma Voted_step_inv: "Voted_inv s \<Longrightarrow> Voted_inv (Voted_step s ev)"
  by (simp add: Voted_step_def Voted_runEffect_inv Voted_handle_inv)

lemma Voted_mount_inv: "Voted_inv (Voted_mount e vs t)"
  unfolding Voted_mount_def by (rule Voted_runEffect_inv) (simp add: Voted_inv_def)

lemma Voted_run_inv: "Voted_inv s \<Longrightarrow> Voted_inv (Voted_run s evs)"
  unfolding Voted_run_def by (induction evs arbitrary: s) (simp_all add: Voted_step_inv)

text \<open>
  C3. In VotedComments, for every list of account votes, vote type, sort type and page
  \<open>p \<ge> 1\<close>: when the page's slice of the voted comment cids is empty, \<open>hasMore\<close> is
  false. So the condition under which the error effect shows the banner (a truthy error
  message, an empty slice and \<open>hasMore\<close>) never holds on a page \<open>p \<ge> 1\<close>; and from
  the mounted component, after every sequence of hook updates, prop changes, sort changes
  and clicks on the rendered pagination buttons, the page is at least 1 and
  \<open>shouldShowErrorToUserVoted\<close> is still false.
\<close>

theorem voted_error_never_shown:
  "(1 \<le> p \<and> paginatedCids (votedCommentCids avs vt st) p = []
      \<longrightarrow> \<not> Voted_hasMore (votedCommentCids avs vt st) p)
   \<and> (1 \<le> p \<longrightarrow>
        \<not> (truthy (errorMessage e) \<and> length (paginatedCids (votedCommentCids avs vt st) p) = 0
            \<and> Voted_hasMore (votedCommentCids avs vt st) p))
   \<and> 1 \<le> voted_currentPage (Voted_run (Voted_mount e avs vt) evs)
   \<and> \<not> shouldShowErrorToUserVoted (Voted_run (Voted_mount e avs vt) evs)"
proof -
  have "Voted_inv (Voted_run (Voted_mount e avs vt) evs)"
    by (rule Voted_run_inv) (rule Voted_mount_inv)
  then show ?thesis
    using paginatedCids_empty_no_more [of p "votedCommentCids avs vt st"]
    by (auto simp: Voted_inv_def)
qed

text \<open>
  The upvoted feed of an account whose only vote is a downvote, with a failing hook: page
  1 is empty, there is no further page, and the banner stays hidden through a click on
  a button that is not rendered and a change of the sort type.
\<close>

theorem voted_error_never_shown_witness:
  "(1::int) \<le> 1
   \<and> paginatedCids (votedCommentCids
        (Some [\<lparr>vote = -1, commentCid = ''QmA'', voteTimestamp = 1700000000\<rparr>]) 1 ''new'') 1 = []
   \<and> \<not> Voted_hasMore (votedCommentCids
        (Some [\<lparr>vote = -1, commentCid = ''QmA'', voteTimestamp = 1700000000\<rparr>]) 1 ''new'') 1
   \<and> truthy (errorMessage (Some (Error ''failed to fetch'')))
   \<and> \<not> shouldShowErrorToUserVoted
        (Voted_run
           (Voted_mount (Some (Error ''failed to fetch''))
              (Some [\<lparr>vote = -1, commentCid = ''QmA'', voteTimestamp = 1700000000\<rparr>]) 1)
           [ClickNext, SortChange ''old''])"
  using voted_error_never_shown
    [where p = 1 and vt = 1 and st = "''new''" and e = "Some (Error ''failed to fetch'')"
       and avs = "Some [\<lparr>vote = -1, commentCid = ''QmA'', voteTimestamp = 1700000000\<rparr>]"
       and evs = "[ClickNext, SortChange ''old'']"]
  by (simp add: paginatedCids_def votedCommentCids_def sortedVotes_def filteredVotes_def
      sortBy_def slice_def relativeIndex_def truthy_def errorMessage_def)

section \<open>Client-side pages: the voted and the hidden feed\<close>

lemma hiddenCommentCids_prefix:
  "1 \<le> p \<Longrightarrow> hiddenCommentCids acct p = take (nat (p * 10)) (allHiddenCids acct)"
  by (auto simp: hiddenCommentCids_def slice_def relativeIndex_def pageSize_def Let_def min_def)

lemma Hidden_hasMore_iff:
  "1 \<le> p \<Longrightarrow> Hidden_hasMore acct p \<longleftrightarrow> p * 10 < int (length (allHiddenCids acct))"
  by (auto simp: Hidden_hasMore_def allHiddenCids_def pageSize_def split: option.splits)

text \<open>
  C2, as the code has it. For every page \<open>p \<ge> 1\<close>: the voted feed shows the window
  \<open>cids[(p-1)*10 : p*10]\<close>; the hidden feed shows the prefix \<open>cids[0 : p*10]\<close>, every
  page up to the current one; in both feeds \<open>hasMore\<close> holds exactly when
  \<open>p*10\<close> is less than the number of identifiers. With 25 identifiers \<open>hasMore\<close> is
  true on pages 1 and 2 and false on page 3 in both feeds; page 3 has 5 items in the
  voted feed and all 25 in the hidden feed.
\<close>

theorem client_paged_slices:
  assumes "1 \<le> p"
  shows "paginatedCids cids p = spec_slice cids (nat ((p - 1) * 10)) (nat (p * 10))
    \<and> (Voted_hasMore cids p \<longleftrightarrow> p * 10 < int (length cids))
    \<and> hiddenCommentCids acct p = spec_slice (allHiddenCids acct) 0 (nat (p * 10))
    \<and> (Hidden_hasMore acct p \<longleftrightarrow> p * 10 < int (length (allHiddenCids acct)))
    \<and> (length cids = 25 \<longrightarrow>
          Voted_hasMore cids 1 \<and> Voted_hasMore cids 2 \<and> \<not> Voted_hasMore cids 3
          \<and> length (paginatedCids cids 3) = 5)
    \<and> (length (allHiddenCids acct) = 25 \<longrightarrow>
          Hidden_hasMore acct 1 \<and> Hidden_hasMore acct 2 \<and> \<not> Hidden_hasMore acct 3
          \<and> length (hiddenCommentCids acct 3) = 25)"
proof -
  have w: "paginatedCids cids p = spec_slice cids (nat ((p - 1) * 10)) (nat (p * 10))"
    using assms by (simp add: paginatedCids_window spec_slice_def nat_diff_distrib nat_mult_distrib)
  have h: "hiddenCommentCids acct p = spec_slice (allHiddenCids acct) 0 (nat (p * 10))"
    using assms by (simp add: hiddenCommentCids_prefix spec_slice_def)
  have v25: "length cids = 25 \<longrightarrow> length (paginatedCids cids 3) = 5"
    by (simp add: paginatedCids_window)
  have h25: "length (allHiddenCids acct) = 25 \<longrightarrow> length (hiddenCommentCids acct 3) = 25"
    by (simp add: hiddenCommentCids_prefix)
  show ?thesis
    using assms w h v25 h25
    by (simp add: Voted_hasMore_def pageSize_def Hidden_hasMore_iff)
qed

text \<open>Page 3 of both feeds over the 25 identifiers.\<close>

theorem client_paged_slices_witness:
  "(1::int) \<le> 3
   \<and> length cids25 = 25
   \<and> length (allHiddenCids account25) = 25
   \<and> paginatedCids cids25 3 = [''c21'', ''c22'', ''c23'', ''c24'', ''c25'']
   \<and> hiddenCommentCids account25 3 = cids25
   \<and> Voted_hasMore cids25 1 \<and> Voted_hasMore cids25 2 \<and> \<not> Voted_hasMore cids25 3
   \<and> Hidden_hasMore account25 1 \<and> Hidden_hasMore account25 2 \<and> \<not> Hidden_hasMore account25 3
   \<and> length (paginatedCids cids25 3) = 5
   \<and> length (hiddenCommentCids account25 3) = 25"
  using client_paged_slices [where p = 3 and cids = cids25 and acct = account25]
  by (simp add: spec_slice_def cids25_def account25_def allHiddenCids_def)

text \<open>
  C2 as stated fails on the hidden feed: with the 25 identifiers, page 3 of
  HiddenComments holds all 25, not the 5 of \<open>cids[20 : 30]\<close>.
\<close>

theorem hidden_slice_counterexample:
  "length (hiddenCommentCids account25 3) = 25
   \<and> length (spec_slice (allHiddenCids account25) 20 30) = 5
   \<and> hiddenCommentCids account25 3 \<noteq> spec_slice (allHiddenCids account25) 20 30"
  by (simp add: hiddenCommentCids_def slice_def relativeIndex_def pageSize_def spec_slice_def
      cids25_def account25_def allHiddenCids_def)

section \<open>The error banner\<close>

lemma Overview_run_snoc: "Overview_run (us @ [u]) = Overview_update (Overview_run us) u"
  by (simp add: Overview_run_def)

lemma Comments_run_snoc: "Comments_run (us @ [u]) = Comments_update (Comments_run us) u"
  by (simp add: Comments_run_def)

lemma Submitted_run_snoc: "Submitted_run (us @ [u]) = Submitted_update (Submitted_run us) u"
  by (simp add: Submitted_run_def)

lemma Author_run_snoc: "Author_run (us @ [u]) = Author_update (Author_run us) u"
  by (simp add: Author_run_def)

lemma Voted_run_snoc: "Voted_run s (evs @ [ev]) = Voted_step (Voted_run s evs) ev"
  by (simp add: Voted_run_def)

lemma Voted_step_shown:
  "shouldShowErrorToUserVoted (Voted_step s ev) =
     Voted_errorEffect (voted_error (Voted_handle s ev)) (Voted_paginated (Voted_handle s ev))
       (Voted_hasMore (Voted_cids (Voted_handle s ev)) (voted_currentPage (Voted_handle s ev)))
       (shouldShowErrorToUserVoted (Voted_handle s ev))"
  by (simp add: Voted_step_def Voted_runEffect_def Voted_paginated_def)

lemma Voted_handle_shown:
  "shouldShowErrorToUserVoted (Voted_handle s ev) = shouldShowErrorToUserVoted s"
  by (cases ev) simp_all

text \<open>
  C4. In Overview, Comments, Submitted, Author and VotedComments, after any sequence of
  renders: a render whose projection (for VotedComments, the page's slice) has at least
  one item leaves the banner hidden, whatever the error is; and when the banner is
  shown, a render with no error and an empty projection leaves it shown.
  (HiddenComments has no error banner. In VotedComments no render from the mounted
  component shows the banner, so its second part is stated for any state \<open>s'\<close>.)
\<close>

theorem banner_hidden_by_content:
  "(0 < length (Overview_sortedComments cs st) \<longrightarrow> \<not> Overview_run (us @ [(e, cs, st)]))
   \<and> (Overview_run us' \<and> length (Overview_sortedComments cs' st') = 0
        \<longrightarrow> Overview_run (us' @ [(None, cs', st')]))
   \<and> (0 < length (Comments_sortedComments acs st) \<longrightarrow> \<not> Comments_run (cus @ [(e, acs, st)]))
   \<and> (Comments_run cus' \<and> length (Comments_sortedComments acs' st') = 0
        \<longrightarrow> Comments_run (cus' @ [(None, acs', st')]))
   \<and> (0 < length (Submitted_sortedComments acs st) \<longrightarrow> \<not> Submitted_run (cus @ [(e, acs, st)]))
   \<and> (Submitted_run cus' \<and> length (Submitted_sortedComments acs' st') = 0
        \<longrightarrow> Submitted_run (cus' @ [(None, acs', st')]))
   \<and> ((\<exists>d. virtuosoData ic isub aucs = Some d \<and> 0 < length d)
        \<longrightarrow> \<not> Author_run (aus @ [(e, ic, isub, aucs)]))
   \<and> (Author_run aus' \<and> virtuosoData ic' isub' aucs' = Some []
        \<longrightarrow> Author_run (aus' @ [(None, ic', isub', aucs')]))
   \<and> (0 < length (Voted_paginated (Voted_handle (Voted_run s evs) ev))
        \<longrightarrow> \<not> shouldShowErrorToUserVoted (Voted_run s (evs @ [ev])))
   \<and> (shouldShowErrorToUserVoted (Voted_run s' evs')
        \<and> length (Voted_paginated (Voted_handle (Voted_run s' evs') (HookUpdate None avs))) = 0
        \<longrightarrow> shouldShowErrorToUserVoted (Voted_run s' (evs' @ [HookUpdate None avs])))"
  unfolding Overview_run_snoc Comments_run_snoc Submitted_run_snoc Author_run_snoc Voted_run_snoc
    Voted_step_shown
  by (auto simp: Overview_update_def Overview_errorEffect_def Comments_update_def
      Comments_errorEffect_def Submitted_update_def Submitted_errorEffect_def
      Author_update_def Author_errorEffect_def Voted_errorEffect_def Voted_handle_shown
      truthy_def errorMessage_def)

text \<open>
  Each feed first fails with nothing to show, which shows the banner (in VotedComments
  the shown state is given, not reached); then either the error clears with the feed
  still empty, or content arrives with the error still there.
\<close>

theorem banner_hidden_by_content_witness:
  "0 < length (Overview_sortedComments [post1] ''new'')
   \<and> \<not> Overview_run ([(fetchError, [], ''new'')] @ [(fetchError, [post1], ''new'')])
   \<and> Overview_run [(fetchError, [], ''new'')]
   \<and> length (Overview_sortedComments [] ''old'') = 0
   \<and> Overview_run ([(fetchError, [], ''new'')] @ [(None, [], ''old'')])
   \<and> 0 < length (Comments_sortedComments (Some [post1, reply1]) ''new'')
   \<and> \<not> Comments_run ([(fetchError, Some [], ''new'')] @ [(fetchError, Some [post1, reply1], ''new'')])
   \<and> Comments_run [(fetchError, Some [], ''new'')]
   \<and> length (Comments_sortedComments (Some []) ''old'') = 0
   \<and> Comments_run ([(fetchError, Some [], ''new'')] @ [(None, Some [], ''old'')])
   \<and> 0 < length (Submitted_sortedComments (Some [post1, reply1]) ''new'')
   \<and> \<not> Submitted_run ([(fetchError, Some [], ''new'')] @ [(fetchError, Some [post1, reply1], ''new'')])
   \<and> Submitted_run [(fetchError, Some [], ''new'')]
   \<and> length (Submitted_sortedComments (Some []) ''old'') = 0
   \<and> Submitted_run ([(fetchError, Some [], ''new'')] @ [(None, Some [], ''old'')])
   \<and> virtuosoData False False (Some [Some post1]) = Some [Some post1]
   \<and> \<not> Author_run ([(fetchError, False, False, Some [])]
                     @ [(fetchError, False, False, Some [Some post1])])
   \<and> Author_run [(fetchError, False, False, Some [])]
   \<and> virtuosoData True False (Some [Some post1]) = Some []
   \<and> Author_run ([(fetchError, False, False, Some [])] @ [(None, True, False, Some [Some post1])])
   \<and> 0 < length (Voted_paginated
         (Voted_handle (Voted_run (Voted_mount fetchError (Some [upvote1]) 1) []) (SortChange ''old'')))
   \<and> \<not> shouldShowErrorToUserVoted
         (Voted_run (Voted_mount fetchError (Some [upvote1]) 1) ([] @ [SortChange ''old'']))
   \<and> shouldShowErrorToUserVoted
         (Voted_run \<lparr>voted_currentPage = 1, voted_sortType = ''new'',
                     shouldShowErrorToUserVoted = True, voted_error = fetchError,
                     voted_accountVotes = Some [], voted_voteType = 1\<rparr> [])
   \<and> shouldShowErrorToUserVoted
         (Voted_run \<lparr>voted_currentPage = 1, voted_sortType = ''new'',
                     shouldShowErrorToUserVoted = True, voted_error = fetchError,
                     voted_accountVotes = Some [], voted_voteType = 1\<rparr>
            ([] @ [HookUpdate None (Some [])]))"
  using banner_hidden_by_content
    [where cs = "[post1]" and st = "''new''" and e = fetchError
       and us = "[(fetchError, [], ''new'')]" and us' = "[(fetchError, [], ''new'')]"
       and cs' = "[]" and st' = "''old''"
       and acs = "Some [post1, reply1]" and cus = "[(fetchError, Some [], ''new'')]"
       and cus' = "[(fetchError, Some [], ''new'')]" and acs' = "Some []"
       and ic = False and isub = False and aucs = "Some [Some post1]"
       and aus = "[(fetchError, False, False, Some [])]"
       and aus' = "[(fetchError, False, False, Some [])]"
       and ic' = True and isub' = False and aucs' = "Some [Some post1]"
       and s = "Voted_mount fetchError (Some [upvote1]) 1" and evs = "[]"
       and ev = "SortChange ''old''"
       and s' = "\<lparr>voted_currentPage = 1, voted_sortType = ''new'',
                  shouldShowErrorToUserVoted = True, voted_error = fetchError,
                  voted_accountVotes = Some [], voted_voteType = 1\<rparr>"
       and evs' = "[]" and avs = "Some []"]
  by (simp add: Overview_run_def Overview_update_def Overview_errorEffect_def
      Overview_sortedComments_def Comments_run_def Comments_update_def Comments_errorEffect_def
      Comments_sortedComments_def Comments_replyComments_def Submitted_run_def
      Submitted_update_def Submitted_errorEffect_def Submitted_sortedComments_def
      Submitted_postComments_def Author_run_def Author_update_def Author_errorEffect_def
      virtuosoData_def Author_replyComments_def Author_postComments_def
      Voted_run_def Voted_step_def Voted_mount_def Voted_runEffect_def Voted_errorEffect_def
      Voted_paginated_def Voted_cids_def votedCommentCids_def sortedVotes_def filteredVotes_def
      paginatedCids_def Voted_hasMore_def slice_def relativeIndex_def pageSize_def
      sortBy_def compareTimestamps_def truthy_def errorMessage_def
      post1_def reply1_def upvote1_def fetchError_def)

text \<open>
  C1, as the code has it. In Overview, Comments, Submitted and Author, after any
  sequence of renders that leaves the banner hidden, the next render shows it exactly
  when the error's message is truthy (the error is there and its message is not the
  empty string) and the projection has no item; the effect is the same function in the
  three profile components, and Author's effect agrees with it on every list of defined
  comments.
\<close>

theorem banner_shown_rule:
  "(\<not> Overview_run us \<longrightarrow>
      (Overview_run (us @ [(e, cs, st)])
        \<longleftrightarrow> truthy (errorMessage e) \<and> length (Overview_sortedComments cs st) = 0))
   \<and> (\<not> Comments_run cus \<longrightarrow>
      (Comments_run (cus @ [(e, acs, st)])
        \<longleftrightarrow> truthy (errorMessage e) \<and> length (Comments_sortedComments acs st) = 0))
   \<and> (\<not> Submitted_run cus \<longrightarrow>
      (Submitted_run (cus @ [(e, acs, st)])
        \<longleftrightarrow> truthy (errorMessage e) \<and> length (Submitted_sortedComments acs st) = 0))
   \<and> (\<not> Author_run aus \<longrightarrow>
      (Author_run (aus @ [(e, ic, isub, aucs)])
        \<longleftrightarrow> truthy (errorMessage e)
            \<and> map_option length (virtuosoData ic isub aucs) = Some 0))
   \<and> Comments_errorEffect = Overview_errorEffect
   \<and> Submitted_errorEffect = Overview_errorEffect
   \<and> Author_errorEffect e (Some (map Some xs)) shown = Overview_errorEffect e xs shown"
proof -
  have "Comments_errorEffect = Overview_errorEffect"
    by (intro ext) (simp add: Comments_errorEffect_def Overview_errorEffect_def)
  moreover have "Submitted_errorEffect = Overview_errorEffect"
    by (intro ext) (simp add: Submitted_errorEffect_def Overview_errorEffect_def)
  moreover have
    "Author_errorEffect e (Some (map Some xs)) shown = Overview_errorEffect e xs shown"
    by (simp add: Author_errorEffect_def Overview_errorEffect_def)
  ultimately show ?thesis
    unfolding Overview_run_snoc Comments_run_snoc Submitted_run_snoc Author_run_snoc
    by (auto simp: Overview_update_def Overview_errorEffect_def Comments_update_def
        Submitted_update_def Author_update_def Author_errorEffect_def split: option.splits)
qed

text \<open>Each of the four feeds, just mounted, fails with nothing to show.\<close>

theorem banner_shown_rule_witness:
  "\<not> Overview_run []
   \<and> truthy (errorMessage fetchError)
   \<and> length (Overview_sortedComments [] ''new'') = 0
   \<and> Overview_run ([] @ [(fetchError, [], ''new'')])
   \<and> \<not> Comments_run []
   \<and> length (Comments_sortedComments (Some [post1]) ''new'') = 0
   \<and> Comments_run ([] @ [(fetchError, Some [post1], ''new'')])
   \<and> \<not> Submitted_run []
   \<and> length (Submitted_sortedComments (Some [reply1]) ''new'') = 0
   \<and> Submitted_run ([] @ [(fetchError, Some [reply1], ''new'')])
   \<and> \<not> Author_run []
   \<and> map_option length (virtuosoData False True (Some [Some reply1])) = Some 0
   \<and> Author_run ([] @ [(fetchError, False, True, Some [Some reply1])])"
  using banner_shown_rule
    [where us = "[]" and e = fetchError and cs = "[]" and st = "''new''"
       and cus = "[]" and acs = "Some [post1]"
       and aus = "[]" and ic = False and isub = True and aucs = "Some [Some reply1]"]
    banner_shown_rule
    [where us = "[]" and e = fetchError and cs = "[]" and st = "''new''"
       and cus = "[]" and acs = "Some [reply1]"
       and aus = "[]" and ic = False and isub = True and aucs = "Some [Some reply1]"]
  by (simp add: Overview_run_def Overview_update_def Overview_errorEffect_def
      Overview_sortedComments_def Comments_run_def Comments_update_def Comments_errorEffect_def
      Comments_sortedComments_def Comments_replyComments_def Submitted_run_def
      Submitted_update_def Submitted_errorEffect_def Submitted_sortedComments_def
      Submitted_postComments_def Author_run_def Author_update_def Author_errorEffect_def
      virtuosoData_def Author_replyComments_def Author_postComments_def
      sortBy_def compareTimestamps_def truthy_def errorMessage_def
      post1_def reply1_def fetchError_def)

text \<open>
  C1 as stated fails twice. An error whose message is the empty string is present, the
  overview has no item, and the banner stays hidden. And the upvoted feed of an account
  with no votes, with a failing hook, keeps the banner hidden where the overview on the
  same error shows it: the effect of VotedComments also asks for \<open>hasMore\<close>.
\<close>

theorem banner_shown_rule_counterexample:
  "Some (Error []) \<noteq> None
   \<and> length (Overview_sortedComments [] ''new'') = 0
   \<and> \<not> Overview_run [(Some (Error []), [], ''new'')]
   \<and> truthy (errorMessage fetchError)
   \<and> length (Voted_paginated (Voted_mount fetchError (Some []) 1)) = 0
   \<and> \<not> shouldShowErrorToUserVoted (Voted_mount fetchError (Some []) 1)
   \<and> Overview_run [(fetchError, [], ''new'')]"
  by (simp add: Overview_run_def Overview_update_def Overview_errorEffect_def
      Overview_sortedComments_def Voted_mount_def Voted_runEffect_def Voted_errorEffect_def
      Voted_paginated_def Voted_cids_def votedCommentCids_def sortedVotes_def filteredVotes_def
      paginatedCids_def Voted_hasMore_def slice_def relativeIndex_def pageSize_def
      sortBy_def truthy_def errorMessage_def fetchError_def)

section \<open>The error log\<close>

lemma incomingMessages_snoc:
  "incomingMessages (errors @ [x]) =
     incomingMessages errors @ (case x of None \<Rightarrow> [] | Some e \<Rightarrow> [message e])"
  by (cases x) (simp_all add: incomingMessages_def List.map_filter_def)

lemma remdups_adj_snoc:
  "remdups_adj (xs @ [y]) =
     (if xs \<noteq> [] \<and> last xs = y then remdups_adj xs else remdups_adj xs @ [y])"
proof (cases xs rule: rev_cases)
  case Nil
  then show ?thesis by simp
next
  case (snoc ys x)
  then show ?thesis by (simp add: remdups_adj_append_two)
qed

text \<open>
  After any sequence of errors the ref holds the last message that arrived, and the
  console holds the messages with adjacent repeats removed.
\<close>

lemma log_state:
  "foldl logErrorEffect (None, []) errors = (prev, console) \<Longrightarrow>
     map message console = remdups_adj (incomingMessages errors)
     \<and> prev = (if incomingMessages errors = [] then None
               else Some (last (incomingMessages errors)))"
proof (induction errors arbitrary: prev console rule: rev_induct)
  case Nil
  then show ?case by (simp add: incomingMessages_def List.map_filter_def)
next
  case (snoc x errors)
  obtain p c where pc: "foldl logErrorEffect (None, []) errors = (p, c)"
    by (cases "foldl logErrorEffect (None, []) errors")
  from snoc.IH [OF pc] have ih: "map message c = remdups_adj (incomingMessages errors)"
    "p = (if incomingMessages errors = [] then None else Some (last (incomingMessages errors)))"
    by simp_all
  from snoc.prems pc have step: "logErrorEffect (p, c) x = (prev, console)"
    by simp
  show ?case
  proof (cases x)
    case None
    with step ih show ?thesis
      by (auto simp: logErrorEffect_def incomingMessages_snoc)
  next
    case (Some e)
    with step ih show ?thesis
      by (auto simp: logErrorEffect_def incomingMessages_snoc remdups_adj_snoc split: if_splits)
  qed
qed

text \<open>
  C9, as the code has it. The ref remembers one message, the last one logged: an
  incoming error is logged exactly when its message differs from that one. So the
  logged messages are the incoming messages with each run of consecutive repeats
  collapsed to one; no message is logged twice in a row, but a message is logged again
  when another message came in between.
\<close>

theorem logged_messages:
  "map message (logged errors) = remdups_adj (incomingMessages errors)
   \<and> distinct_adj (map message (logged errors))"
proof -
  obtain p c where pc: "foldl logErrorEffect (None, []) errors = (p, c)"
    by (cases "foldl logErrorEffect (None, []) errors")
  from log_state [OF pc] have "map message (logged errors) = remdups_adj (incomingMessages errors)"
    by (simp add: logged_def pc)
  then show ?thesis by simp
qed

text \<open>
  C9 as stated fails: a timeout, then a refused connection, then the timeout again, and
  the timeout's message is in the log twice.
\<close>

theorem logged_twice_counterexample:
  "logged [Some (Error ''timeout''), Some (Error ''refused''), Some (Error ''timeout'')]
     = [Error ''timeout'', Error ''refused'', Error ''timeout'']
   \<and> count_list
        (map message
           (logged [Some (Error ''timeout''), Some (Error ''refused''), Some (Error ''timeout'')]))
        ''timeout'' = 2"
  by (simp add: logged_def logErrorEffect_def)

section \<open>The snapshot store\<close>

lemma setLastVirtuosoState_entry:
  "setLastVirtuosoState key sc states k = Some snap \<Longrightarrow>
     states k = Some snap \<or> (\<exists>rs. ranges snap = Some rs \<and> rs \<noteq> [])"
  by (auto simp: setLastVirtuosoState_def split: option.splits if_splits)

lemma setLastVirtuosoState_degenerate:
  "ranges snap = None \<or> ranges snap = Some [] \<Longrightarrow>
     setLastVirtuosoState key (Some (Some snap)) states = states"
  by (auto simp: setLastVirtuosoState_def split: option.splits)

lemma setLastVirtuosoState_saved:
  "ranges snap = Some (r # rs) \<Longrightarrow>
     setLastVirtuosoState key (Some (Some snap)) states key = Some snap"
  by (simp add: setLastVirtuosoState_def)

lemma Author_onScroll_triple:
  "Author_onScroll states (a, st, sc) = setLastVirtuosoState (Author_key a st) sc states"
  by (simp add: Author_onScroll_def)

lemma Profile_onScroll_triple:
  "Profile_onScroll states (a, st, sc) = setLastVirtuosoState (Profile_key a st) sc states"
  by (simp add: Profile_onScroll_def)

lemma Author_scrolls_entry:
  "foldl Author_onScroll states evs k = Some snap \<Longrightarrow>
     states k = Some snap \<or> (\<exists>rs. ranges snap = Some rs \<and> rs \<noteq> [])"
proof (induction evs arbitrary: snap rule: rev_induct)
  case Nil
  then show ?case by simp
next
  case (snoc ev evs)
  obtain a st sc where ev: "ev = (a, st, sc)" by (cases ev)
  from snoc.prems have
    "setLastVirtuosoState (Author_key a st) sc (foldl Author_onScroll states evs) k = Some snap"
    by (simp add: ev Author_onScroll_triple)
  then have "foldl Author_onScroll states evs k = Some snap
      \<or> (\<exists>rs. ranges snap = Some rs \<and> rs \<noteq> [])"
    by (rule setLastVirtuosoState_entry)
  with snoc.IH show ?case by blast
qed

lemma Profile_scrolls_entry:
  "foldl Profile_onScroll states evs k = Some snap \<Longrightarrow>
     states k = Some snap \<or> (\<exists>rs. ranges snap = Some rs \<and> rs \<noteq> [])"
proof (induction evs arbitrary: snap rule: rev_induct)
  case Nil
  then show ?case by simp
next
  case (snoc ev evs)
  obtain a st sc where ev: "ev = (a, st, sc)" by (cases ev)
  from snoc.prems have
    "setLastVirtuosoState (Profile_key a st) sc (foldl Profile_onScroll states evs) k = Some snap"
    by (simp add: ev Profile_onScroll_triple)
  then have "foldl Profile_onScroll states evs k = Some snap
      \<or> (\<exists>rs. ranges snap = Some rs \<and> rs \<noteq> [])"
    by (rule setLastVirtuosoState_entry)
  with snoc.IH show ?case by blast
qed

text \<open>
  C7. In the author view and in the profile's virtualised list, after every sequence of
  scroll events an entry of the store is either the entry that was there before the
  sequence or a snapshot with at least one range; starting from the empty store, every
  entry has at least one range. A scroll event whose snapshot has no range (or no
  \<open>ranges\<close> at all, or that carries no snapshot, or that finds no list mounted) leaves
  the whole store as it was, so it overwrites nothing; a snapshot with a range is stored
  under the key of the event.
\<close>

theorem snapshot_saved_only_with_ranges:
  "(foldl Author_onScroll states evs k = Some snap
      \<longrightarrow> states k = Some snap \<or> (\<exists>rs. ranges snap = Some rs \<and> rs \<noteq> []))
   \<and> (foldl Author_onScroll Map.empty evs k = Some snap
      \<longrightarrow> (\<exists>rs. ranges snap = Some rs \<and> rs \<noteq> []))
   \<and> (ranges snap' = None \<or> ranges snap' = Some []
      \<longrightarrow> Author_onScroll states (authorAddress, sortTypeParam, Some (Some snap')) = states)
   \<and> Author_onScroll states (authorAddress, sortTypeParam, Some None) = states
   \<and> Author_onScroll states (authorAddress, sortTypeParam, None) = states
   \<and> (ranges snap'' = Some (r # rs)
      \<longrightarrow> Author_onScroll states (authorAddress, sortTypeParam, Some (Some snap''))
            (Author_key authorAddress sortTypeParam) = Some snap'')
   \<and> (foldl Profile_onScroll states pevs k = Some snap
      \<longrightarrow> states k = Some snap \<or> (\<exists>rs. ranges snap = Some rs \<and> rs \<noteq> []))
   \<and> (foldl Profile_onScroll Map.empty pevs k = Some snap
      \<longrightarrow> (\<exists>rs. ranges snap = Some rs \<and> rs \<noteq> []))
   \<and> (ranges snap' = None \<or> ranges snap' = Some []
      \<longrightarrow> Profile_onScroll states (acct, sortTypeParam, Some (Some snap')) = states)
   \<and> Profile_onScroll states (acct, sortTypeParam, Some None) = states
   \<and> Profile_onScroll states (acct, sortTypeParam, None) = states
   \<and> (ranges snap'' = Some (r # rs)
      \<longrightarrow> Profile_onScroll states (acct, sortTypeParam, Some (Some snap''))
            (Profile_key acct sortTypeParam) = Some snap'')"
proof -
  have unmounted: "setLastVirtuosoState key None states = states"
    and undefined: "setLastVirtuosoState key (Some None) states = states" for key
    by (simp_all add: setLastVirtuosoState_def)
  show ?thesis
    using Author_scrolls_entry [of states evs k snap]
      Author_scrolls_entry [of Map.empty evs k snap]
      Profile_scrolls_entry [of states pevs k snap]
      Profile_scrolls_entry [of Map.empty pevs k snap]
    by (auto simp: Author_onScroll_triple Profile_onScroll_triple unmounted undefined
        setLastVirtuosoState_degenerate setLastVirtuosoState_saved)
qed

text \<open>
  A scroll half-way down a feed followed by a scroll that reports no range: the good
  snapshot is stored and survives.
\<close>

theorem snapshot_saved_only_with_ranges_witness:
  "foldl Author_onScroll Map.empty
      [(Some ''alice.eth'', Some ''new'', Some (Some goodSnapshot)),
       (Some ''alice.eth'', Some ''new'', Some (Some emptySnapshot))] ''alice.ethnew''
     = Some goodSnapshot
   \<and> ranges goodSnapshot = Some [(0, 11, 96)]
   \<and> ranges emptySnapshot = Some []
   \<and> Author_onScroll Map.empty (Some ''alice.eth'', Some ''new'', Some (Some emptySnapshot))
       = Map.empty
   \<and> Author_onScroll Map.empty (Some ''alice.eth'', Some ''new'', Some (Some goodSnapshot))
        (Author_key (Some ''alice.eth'') (Some ''new'')) = Some goodSnapshot
   \<and> foldl Profile_onScroll Map.empty
      [(account1, Some ''new'', Some (Some goodSnapshot)),
       (account1, Some ''new'', Some (Some emptySnapshot))] ''12D3KooWnew''
     = Some goodSnapshot
   \<and> Profile_onScroll Map.empty (account1, Some ''new'', Some (Some emptySnapshot)) = Map.empty
   \<and> Profile_onScroll Map.empty (account1, Some ''new'', Some (Some goodSnapshot))
        (Profile_key account1 (Some ''new'')) = Some goodSnapshot"
  using snapshot_saved_only_with_ranges
    [where states = Map.empty and k = "''alice.ethnew''" and snap = goodSnapshot
       and evs = "[(Some ''alice.eth'', Some ''new'', Some (Some goodSnapshot)),
                   (Some ''alice.eth'', Some ''new'', Some (Some emptySnapshot))]"
       and snap' = emptySnapshot and authorAddress = "Some ''alice.eth''"
       and sortTypeParam = "Some ''new''" and snap'' = goodSnapshot
       and r = "(0, 11, 96)" and rs = "[]" and acct = account1 and pevs = "[]"]
    snapshot_saved_only_with_ranges
    [where states = Map.empty and k = "''12D3KooWnew''" and snap = goodSnapshot
       and pevs = "[(account1, Some ''new'', Some (Some goodSnapshot)),
                    (account1, Some ''new'', Some (Some emptySnapshot))]"
       and snap' = emptySnapshot and authorAddress = "Some ''alice.eth''"
       and sortTypeParam = "Some ''new''" and snap'' = goodSnapshot
       and r = "(0, 11, 96)" and rs = "[]" and acct = account1 and evs = "[]"]
  by (simp add: Author_onScroll_def Profile_onScroll_def setLastVirtuosoState_def
      Author_key_def Profile_key_def orEmpty_def js_plus_def goodSnapshot_def emptySnapshot_def
      account1_def)

subsection \<open>Keys of the store\<close>

lemma author_pairs_differ: "(Some ''alice.eth'', Some ''new'') \<noteq> (Some ''alice.ethnew'', None::string option)"
  by simp

lemma author_keys_equal: "Author_key (Some ''alice.eth'') (Some ''new'') = Author_key (Some ''alice.ethnew'') None"
  by (simp add: Author_key_def orEmpty_def)

lemma profile_pairs_differ: "(map_option shortAddress account1, Some ''new'')
        \<noteq> (map_option shortAddress account2, Some ''ew'')"
  by (simp add: account1_def account2_def)

lemma profile_keys_equal: "Profile_key account1 (Some ''new'') = Profile_key account2 (Some ''ew'')"
  by (simp add: Profile_key_def js_plus_def account1_def account2_def)

lemma Author_key_collision: "\<exists>a1 s1 a2 s2. (a1, s1) \<noteq> (a2, s2) \<and> Author_key a1 s1 = Author_key a2 s2"
  by (intro exI conjI) (rule author_pairs_differ, rule author_keys_equal)

lemma Profile_key_collision: "\<exists>a1 s1 a2 s2. (map_option shortAddress a1, s1) \<noteq> (map_option shortAddress a2, s2)
         \<and> Profile_key a1 s1 = Profile_key a2 s2"
  by (intro exI conjI) (rule profile_pairs_differ, rule profile_keys_equal)

lemma key_concat:
  "Author_key (Some a) (Some st) = a @ st"
  "Profile_key (Some \<lparr>shortAddress = a, blockedCids = b\<rparr>) (Some st) = a @ st"
  by (simp_all add: Author_key_def orEmpty_def Profile_key_def js_plus_def)

lemma good_ranges: "ranges goodSnapshot = Some [(0, 11, 96)]"
  and later_ranges: "ranges laterSnapshot = Some [(12, 20, 96)]"
  by (simp_all add: goodSnapshot_def laterSnapshot_def)

lemma setLastVirtuosoState_lookup:
  "ranges snap = Some (r # rs) \<Longrightarrow> key' = key \<Longrightarrow>
     setLastVirtuosoState key (Some (Some snap)) states key' = Some snap"
  by (simp add: setLastVirtuosoState_def)

lemma shared_author:
  "Author_onScroll states (Some ''alice.eth'', Some ''new'', Some (Some goodSnapshot))
        (Author_key (Some ''alice.ethnew'') None) = Some goodSnapshot"
  unfolding Author_onScroll_triple
  by (rule setLastVirtuosoState_lookup [OF good_ranges]) (rule author_keys_equal [symmetric])

lemma overwritten_author:
    "Author_onScroll
        (Author_onScroll states (Some ''alice.eth'', Some ''new'', Some (Some goodSnapshot)))
        (Some ''alice.ethnew'', None, Some (Some laterSnapshot))
        (Author_key (Some ''alice.eth'') (Some ''new'')) = Some laterSnapshot"
  unfolding Author_onScroll_triple
  by (rule setLastVirtuosoState_lookup [OF later_ranges]) (rule author_keys_equal)

lemma shared_profile:
    "Profile_onScroll states (account1, Some ''new'', Some (Some goodSnapshot))
        (Profile_key account2 (Some ''ew'')) = Some goodSnapshot"
  unfolding Profile_onScroll_triple
  by (rule setLastVirtuosoState_lookup [OF good_ranges]) (rule profile_keys_equal [symmetric])

lemma overwritten_profile:
    "Profile_onScroll
        (Profile_onScroll states (account1, Some ''new'', Some (Some goodSnapshot)))
        (account2, Some ''ew'', Some (Some laterSnapshot))
        (Profile_key account1 (Some ''new'')) = Some laterSnapshot"
  unfolding Profile_onScroll_triple
  by (rule setLastVirtuosoState_lookup [OF later_ranges]) (rule profile_keys_equal)

text \<open>
  C10. The key is the address followed directly by the sort type: in the author view
  \<open>authorAddress ?? ''\<close> and \<open>sortType ?? ''\<close>, in the profile \<open>account?.shortAddress\<close>
  and \<open>params.sortType\<close> joined by \<open>+\<close>. Neither key function is injective: the
  author \<open>alice.eth\<close> sorted by \<open>new\<close> and the author \<open>alice.ethnew\<close> with no sort type
  have the same key (as have the accounts \<open>12D3KooW\<close> with \<open>new\<close> and \<open>12D3KooWn\<close>
  with \<open>ew\<close>). So a snapshot saved for one is what the other loads, and a later save for
  the second replaces the entry of the first.
\<close>

theorem snapshot_key_not_injective:
  "Author_key (Some a) (Some st) = a @ st
   \<and> Profile_key (Some \<lparr>shortAddress = a, blockedCids = b\<rparr>) (Some st) = a @ st
   \<and> (\<exists>a1 s1 a2 s2. (a1, s1) \<noteq> (a2, s2) \<and> Author_key a1 s1 = Author_key a2 s2)
   \<and> (\<exists>a1 s1 a2 s2. (map_option shortAddress a1, s1) \<noteq> (map_option shortAddress a2, s2)
         \<and> Profile_key a1 s1 = Profile_key a2 s2)
   \<and> (Some ''alice.eth'', Some ''new'') \<noteq> (Some ''alice.ethnew'', None)
   \<and> Author_key (Some ''alice.eth'') (Some ''new'') = Author_key (Some ''alice.ethnew'') None
   \<and> Author_onScroll states (Some ''alice.eth'', Some ''new'', Some (Some goodSnapshot))
        (Author_key (Some ''alice.ethnew'') None) = Some goodSnapshot
   \<and> Author_onScroll
        (Author_onScroll states (Some ''alice.eth'', Some ''new'', Some (Some goodSnapshot)))
        (Some ''alice.ethnew'', None, Some (Some laterSnapshot))
        (Author_key (Some ''alice.eth'') (Some ''new'')) = Some laterSnapshot
   \<and> (map_option shortAddress account1, Some ''new'')
        \<noteq> (map_option shortAddress account2, Some ''ew'')
   \<and> Profile_key account1 (Some ''new'') = Profile_key account2 (Some ''ew'')
   \<and> Profile_onScroll states (account1, Some ''new'', Some (Some goodSnapshot))
        (Profile_key account2 (Some ''ew'')) = Some goodSnapshot
   \<and> Profile_onScroll
        (Profile_onScroll states (account1, Some ''new'', Some (Some goodSnapshot)))
        (account2, Some ''ew'', Some (Some laterSnapshot))
        (Profile_key account1 (Some ''new'')) = Some laterSnapshot"
  by (intro conjI key_concat Author_key_collision Profile_key_collision author_pairs_differ author_keys_equal shared_author
      overwritten_author profile_pairs_differ profile_keys_equal shared_profile overwritten_profile)

section \<open>Posts and replies\<close>

text \<open>
  C5, as the code has it. The filters test the truthiness of \<open>parentCid\<close>: a comment is
  a reply when its \<open>parentCid\<close> is a non-empty string and a post otherwise (no
  \<open>parentCid\<close>, or the empty string); nothing else of the comment is looked at. In the
  profile every comment of the list is in exactly one of the two filtered lists, and
  their union is the list's set, which is also the set of the overview; sorting changes
  neither. In the author view the list may hold \<open>undefined\<close> entries: every defined
  entry is in exactly one of the two filtered lists, whose union is the set of the
  defined entries, while the unfiltered view shows the list as it is.
\<close>

theorem posts_replies_partition:
  "set (Comments_replyComments (Some cs)) \<union> set (Submitted_postComments (Some cs)) = set cs
   \<and> set (Comments_replyComments (Some cs)) \<inter> set (Submitted_postComments (Some cs)) = {}
   \<and> (c \<in> set (Comments_replyComments (Some cs)) \<longleftrightarrow> c \<in> set cs \<and> truthy (parentCid c))
   \<and> (c \<in> set (Submitted_postComments (Some cs)) \<longleftrightarrow> c \<in> set cs \<and> \<not> truthy (parentCid c))
   \<and> set (Comments_sortedComments (Some cs) st) \<union> set (Submitted_sortedComments (Some cs) st)
       = set (Overview_sortedComments cs st)
   \<and> (truthy p \<longleftrightarrow> (\<exists>s. p = Some s \<and> s \<noteq> []))
   \<and> virtuosoData True isub (Some acs) = Some (Author_replyComments (Some acs))
   \<and> virtuosoData False True (Some acs) = Some (Author_postComments (Some acs))
   \<and> virtuosoData False False (Some acs) = Some acs
   \<and> set (Author_replyComments (Some acs)) \<union> set (Author_postComments (Some acs))
       = set acs - {None}
   \<and> set (Author_replyComments (Some acs)) \<inter> set (Author_postComments (Some acs)) = {}
   \<and> (Some c \<in> set (Author_replyComments (Some acs))
        \<longleftrightarrow> Some c \<in> set acs \<and> truthy (parentCid c))
   \<and> (Some c \<in> set (Author_postComments (Some acs))
        \<longleftrightarrow> Some c \<in> set acs \<and> \<not> truthy (parentCid c))"
proof -
  have profile_union:
    "set (Comments_replyComments (Some cs)) \<union> set (Submitted_postComments (Some cs)) = set cs"
    by (auto simp: Comments_replyComments_def Submitted_postComments_def)
  have sorted_union:
    "set (Comments_sortedComments (Some cs) st) \<union> set (Submitted_sortedComments (Some cs) st)
       = set (Overview_sortedComments cs st)"
    by (simp only: Comments_sortedComments_def Submitted_sortedComments_def
        Overview_sortedComments_def sortBy_set profile_union)
  have author_union:
    "set (Author_replyComments (Some acs)) \<union> set (Author_postComments (Some acs))
       = set acs - {None}"
    by (auto simp: Author_replyComments_def Author_postComments_def split: option.splits)
  have author_disjoint:
    "set (Author_replyComments (Some acs)) \<inter> set (Author_postComments (Some acs)) = {}"
    by (auto simp: Author_replyComments_def Author_postComments_def split: option.splits)
  have truthy_iff: "truthy p \<longleftrightarrow> (\<exists>s. p = Some s \<and> s \<noteq> [])"
    by (cases p) (simp_all add: truthy_def)
  show ?thesis
    unfolding sorted_union author_union author_disjoint profile_union
    by (simp add: truthy_iff [symmetric])
      (auto simp: Comments_replyComments_def Submitted_postComments_def
        Author_replyComments_def Author_postComments_def virtuosoData_def)
qed

text \<open>
  C5 as stated fails. A comment whose \<open>parentCid\<close> is the empty string has a
  \<open>parentCid\<close>, and is a post for the filters. And in the author view an \<open>undefined\<close>
  entry is a row of the unfiltered view that neither filtered view has.
\<close>

theorem posts_replies_partition_counterexample:
  "parentCid emptyParent \<noteq> None
   \<and> emptyParent \<in> set (Submitted_postComments (Some [emptyParent]))
   \<and> emptyParent \<notin> set (Comments_replyComments (Some [emptyParent]))
   \<and> Some emptyParent \<in> set (Author_postComments (Some [Some emptyParent]))
   \<and> virtuosoData False False (Some [None, Some post1]) = Some [None, Some post1]
   \<and> set (Author_replyComments (Some [None, Some post1]))
        \<union> set (Author_postComments (Some [None, Some post1])) = {Some post1}"
  by (simp add: Submitted_postComments_def Comments_replyComments_def Author_postComments_def
      Author_replyComments_def virtuosoData_def truthy_def emptyParent_def post1_def)

section \<open>Footer and empty state\<close>

text \<open>
  C8, as the code has it. The author view renders the loading footer exactly when
  \<open>hasMore\<close> holds, and "nothing found" exactly when \<open>virtuosoData\<close> is an empty list
  and \<open>hasMore\<close> is false. No component of the profile renders a loading footer:
  Overview, Comments and Submitted have no \<open>hasMore\<close> and render "nothing found"
  exactly when the sorted list is empty; VotedComments and HiddenComments render the
  "next" button exactly when \<open>hasMore\<close> holds and "nothing found" exactly when the
  page's slice is empty, which on a page \<open>p \<ge> 1\<close> is exactly when the slice is empty
  and \<open>hasMore\<close> is false.
\<close>

theorem footer_and_nothing_found:
  "(LoadingFooter \<in> set (Author_render shown vdata hasMore) \<longleftrightarrow> hasMore)
   \<and> (NothingFound \<in> set (Author_render shown vdata hasMore)
        \<longleftrightarrow> map_option length vdata = Some 0 \<and> \<not> hasMore)
   \<and> LoadingFooter \<notin> set (Overview_render shown scs)
   \<and> (NothingFound \<in> set (Overview_render shown scs) \<longleftrightarrow> length scs = 0)
   \<and> LoadingFooter \<notin> set (Comments_render shown scs)
   \<and> (NothingFound \<in> set (Comments_render shown scs) \<longleftrightarrow> length scs = 0)
   \<and> LoadingFooter \<notin> set (Submitted_render shown scs)
   \<and> (NothingFound \<in> set (Submitted_render shown scs) \<longleftrightarrow> length scs = 0)
   \<and> LoadingFooter \<notin> set (Voted_render shown paginated q hasMore)
   \<and> (Pagination (1 < q) True \<in> set (Voted_render shown paginated q hasMore) \<longleftrightarrow> hasMore)
   \<and> (NothingFound \<in> set (Voted_render shown paginated q hasMore) \<longleftrightarrow> length paginated = 0)
   \<and> LoadingFooter \<notin> set (Hidden_render hidden q hasMore)
   \<and> (Pagination (1 < q) True \<in> set (Hidden_render hidden q hasMore) \<longleftrightarrow> hasMore)
   \<and> (NothingFound \<in> set (Hidden_render hidden q hasMore) \<longleftrightarrow> length hidden = 0)
   \<and> (1 \<le> p \<longrightarrow>
        (NothingFound \<in> set (Voted_render shown (paginatedCids cids p) p (Voted_hasMore cids p))
          \<longleftrightarrow> length (paginatedCids cids p) = 0 \<and> \<not> Voted_hasMore cids p))
   \<and> (1 \<le> p \<longrightarrow>
        (NothingFound \<in> set (Hidden_render (hiddenCommentCids acct p) p (Hidden_hasMore acct p))
          \<longleftrightarrow> length (hiddenCommentCids acct p) = 0 \<and> \<not> Hidden_hasMore acct p))"
proof -
  have voted: "1 \<le> p \<Longrightarrow> length (paginatedCids cids p) = 0 \<Longrightarrow> \<not> Voted_hasMore cids p"
    using paginatedCids_empty_no_more [of p cids] by simp
  have hidden: "1 \<le> p \<Longrightarrow> length (hiddenCommentCids acct p) = 0 \<Longrightarrow> \<not> Hidden_hasMore acct p"
    by (simp add: hiddenCommentCids_prefix Hidden_hasMore_iff)
  have author: "(LoadingFooter \<in> set (Author_render shown vdata hasMore) \<longleftrightarrow> hasMore)
     \<and> (NothingFound \<in> set (Author_render shown vdata hasMore)
        \<longleftrightarrow> map_option length vdata = Some 0 \<and> \<not> hasMore)"
    by (simp add: Author_render_def Footer_def)
  have simple: "LoadingFooter \<notin> set (Overview_render shown scs)
   \<and> (NothingFound \<in> set (Overview_render shown scs) \<longleftrightarrow> length scs = 0)
   \<and> LoadingFooter \<notin> set (Comments_render shown scs)
   \<and> (NothingFound \<in> set (Comments_render shown scs) \<longleftrightarrow> length scs = 0)
   \<and> LoadingFooter \<notin> set (Submitted_render shown scs)
   \<and> (NothingFound \<in> set (Submitted_render shown scs) \<longleftrightarrow> length scs = 0)"
    by (simp add: Overview_render_def Comments_render_def Submitted_render_def)
  have paged: "LoadingFooter \<notin> set (Voted_render sh xs q hm)
   \<and> (Pagination (1 < q) True \<in> set (Voted_render sh xs q hm) \<longleftrightarrow> hm)
   \<and> (NothingFound \<in> set (Voted_render sh xs q hm) \<longleftrightarrow> length xs = 0)
   \<and> LoadingFooter \<notin> set (Hidden_render xs q hm)
   \<and> (Pagination (1 < q) True \<in> set (Hidden_render xs q hm) \<longleftrightarrow> hm)
   \<and> (NothingFound \<in> set (Hidden_render xs q hm) \<longleftrightarrow> length xs = 0)" for sh xs q hm
    by (auto simp: Voted_render_def Hidden_render_def PaginationControls_def)
  show ?thesis
    using author simple paged [of shown paginated q hasMore] paged [of shown hidden q hasMore]
      paged [of shown "paginatedCids cids p" p "Voted_hasMore cids p"]
      paged [of shown "hiddenCommentCids acct p" p "Hidden_hasMore acct p"] voted hidden
    by blast
qed

text \<open>Page 1 of the voted and of the hidden feed of an account with no vote and nothing hidden.\<close>

theorem footer_and_nothing_found_witness:
  "(1::int) \<le> 1
   \<and> NothingFound \<in> set (Voted_render False (paginatedCids [] 1) 1 (Voted_hasMore [] 1))
   \<and> length (paginatedCids [] 1) = 0
   \<and> \<not> Voted_hasMore [] 1
   \<and> NothingFound
        \<in> set (Hidden_render (hiddenCommentCids account1 1) 1 (Hidden_hasMore account1 1))
   \<and> length (hiddenCommentCids account1 1) = 0
   \<and> \<not> Hidden_hasMore account1 1"
  using footer_and_nothing_found [where p = 1 and cids = "[]" and acct = account1 and shown = False]
  by (simp add: paginatedCids_def Voted_hasMore_def hiddenCommentCids_def Hidden_hasMore_def
      allHiddenCids_def slice_def relativeIndex_def pageSize_def account1_def)

text \<open>
  C8 as stated fails in the profile: on page 1 of a voted feed of 25 comments
  \<open>hasMore\<close> holds, and what is rendered is ten comments and the "next" button; no
  loading footer.
\<close>

theorem footer_and_nothing_found_counterexample:
  "Voted_hasMore cids25 1
   \<and> LoadingFooter \<notin> set (Voted_render False (paginatedCids cids25 1) 1 (Voted_hasMore cids25 1))
   \<and> Voted_render False (paginatedCids cids25 1) 1 (Voted_hasMore cids25 1)
       = [SortDropdown, CommentItem ''c01'', CommentItem ''c02'', CommentItem ''c03'',
          CommentItem ''c04'', CommentItem ''c05'', CommentItem ''c06'', CommentItem ''c07'',
          CommentItem ''c08'', CommentItem ''c09'', CommentItem ''c10'', Pagination False True]"
  by (simp add: Voted_render_def PaginationControls_def paginatedCids_def Voted_hasMore_def
      slice_def relativeIndex_def pageSize_def cids25_def)

end
